theory Spec2Isabelle
  imports Complex_Main "HOL-Library.Word"
begin

section \<open>Python strings\<close>

text \<open>
  A Python \<open>str\<close> is a sequence of code points. It is modelled as a \<open>string\<close> in which
  every \<open>char\<close> stands for the code point with the same number, so the model covers the
  texts whose code points are below 256 (ASCII and the Latin-1 supplement). On that range
  \<open>isspace\<close>, \<open>lower\<close> and \<open>strip\<close> below are Python's \<open>str.isspace\<close>, \<open>str.lower\<close> and
  \<open>str.strip\<close>.
\<close>

definition isspace :: "char \<Rightarrow> bool" where
  "isspace c =
     (let n = (of_char c :: nat)
      in (9 \<le> n \<and> n \<le> 13) \<or> (28 \<le> n \<and> n \<le> 32) \<or> n = 133 \<or> n = 160)"

definition lower_char :: "char \<Rightarrow> char" where
  "lower_char c =
     (let n = (of_char c :: nat)
      in if (65 \<le> n \<and> n \<le> 90) \<or> (192 \<le> n \<and> n \<le> 222 \<and> n \<noteq> 215)
         then char_of (n + 32) else c)"

definition lower :: "string \<Rightarrow> string" where
  "lower s = map lower_char s"

definition strip :: "string \<Rightarrow> string" where
  "strip s = rev (dropWhile isspace (rev (dropWhile isspace s)))"

text \<open>
  \<open>s.replace(old, new)\<close> for patterns of one character, the only use the program makes
  of it: every occurrence of \<open>old\<close> becomes \<open>new\<close>.
\<close>

definition replace :: "char \<Rightarrow> char \<Rightarrow> string \<Rightarrow> string" where
  "replace old new s = map (\<lambda>c. if c = old then new else c) s"

text \<open>\<open>sep.join(words)\<close>.\<close>

fun join :: "string \<Rightarrow> string list \<Rightarrow> string" where
  "join sep [] = []"
| "join sep [w] = w"
| "join sep (w # ws) = w @ sep @ join sep ws"

text \<open>Python's truth value of a string or of \<open>None\<close>, as \<open>os.getenv\<close> returns it.\<close>

definition truthy :: "string option \<Rightarrow> bool" where
  "truthy v = (case v of None \<Rightarrow> False | Some s \<Rightarrow> s \<noteq> [])"

section \<open>The OCR engines (src/ocr\_engine.py)\<close>

type_synonym bytes = "8 word list"

text \<open>
  What a call into a library gives back: it raises an exception of the class
  \<open>Exception\<close>, the one the handlers of the program catch (its message is kept), or it
  returns a value.
\<close>

datatype 'a outcome = Raised string | Returned 'a

text \<open>
  The process environment and the two external engines.
  \<^item> \<open>GEMINI_API_KEY\<close> is the module constant read with \<open>os.getenv\<close>.
  \<^item> \<open>generate_content\<close> is the body of the \<open>try\<close> of \<open>ocr_with_gemini\<close> up to
    \<open>response.text\<close> (opening the image, the client's call): the response's text, which
    may be \<open>None\<close>, or the exception raised on the way.
  \<^item> \<open>image_to_data\<close> is the body of the \<open>try\<close> of \<open>ocr_with_tesseract\<close> up to the
    table \<open>data\<close> (opening and preprocessing the image, the Tesseract call): the rows of
    the table as pairs of \<open>data["text"][i]\<close> and \<open>int(data["conf"][i])\<close>, or the
    exception raised on the way.
  Confidences are Python floats in the source; they are modelled as real numbers, and the
  constants \<open>0.95\<close>, \<open>0.7\<close>, \<open>0.8\<close>, \<open>0.5\<close> as the decimal fractions they are written as.
\<close>

record env =
  GEMINI_API_KEY :: "string option"
  generate_content :: "bytes \<Rightarrow> string option outcome"
  image_to_data :: "bytes \<Rightarrow> (string \<times> int) list outcome"

text \<open>The dictionary both engine wrappers return: keys \<open>text\<close>, \<open>confidence\<close>, \<open>error\<close>.\<close>

record ocr_dict =
  e_text :: string
  e_confidence :: real
  e_error :: "string option"

definition ocr_with_gemini :: "env \<Rightarrow> bytes \<Rightarrow> ocr_dict" where
  "ocr_with_gemini ev image_bytes =
     (if \<not> truthy (GEMINI_API_KEY ev)
      then \<lparr>e_text = [], e_confidence = 0, e_error = Some ''No API key''\<rparr>
      else
        (case generate_content ev image_bytes of
           Raised e \<Rightarrow> \<lparr>e_text = [], e_confidence = 0, e_error = Some e\<rparr>
         | Returned response_text \<Rightarrow>
             (let text = (if truthy response_text then strip (the response_text) else []);
                  confidence = (if length text > 5 then 0.95 else 0.7)
              in \<lparr>e_text = text, e_confidence = confidence, e_error = None\<rparr>)))"

text \<open>
  The loop of \<open>ocr_with_tesseract\<close> over the rows of the table, with its two accumulators
  \<open>words\<close> and \<open>confs\<close>.
\<close>

fun collect :: "(string \<times> int) list \<Rightarrow> string list \<Rightarrow> int list \<Rightarrow> string list \<times> int list" where
  "collect [] words confs = (words, confs)"
| "collect ((t, conf) # rows) words confs =
     (let word = strip t
      in if conf > 30 \<and> word \<noteq> []
         then collect rows (words @ [word]) (confs @ [conf])
         else collect rows words confs)"

definition ocr_with_tesseract :: "env \<Rightarrow> bytes \<Rightarrow> ocr_dict" where
  "ocr_with_tesseract ev image_bytes =
     (case image_to_data ev image_bytes of
        Raised e \<Rightarrow> \<lparr>e_text = [], e_confidence = 0, e_error = Some e\<rparr>
      | Returned data \<Rightarrow>
          (let (words, confs) = collect data [] [];
               text = join '' '' words;
               avg_conf = (if confs \<noteq> [] then real_of_int (sum_list confs) / real (length confs) else 0)
           in \<lparr>e_text = text, e_confidence = avg_conf / 100, e_error = None\<rparr>))"

section \<open>Arbitration between the engines\<close>

text \<open>
  The dictionary \<open>extract_text_with_fallback\<close> returns; \<open>notes_val\<close> is its key \<open>notes\<close>.
\<close>

record ocr_result =
  extracted_text :: string
  cleaned_text :: string
  confidence :: real
  ocr_source :: string
  notes_val :: string

text \<open>
  Calling an engine wrapper is an effect of the program. The model makes it visible:
  next to the dictionary, the functions below return the wrappers called, in call order.
\<close>

datatype engine = Gemini | Tesseract

text \<open>Lines 76 to 115: the initial dictionary and the choice between the engines.\<close>

definition arbitrate :: "env \<Rightarrow> bytes \<Rightarrow> ocr_result \<times> engine list" where
  "arbitrate ev image_bytes =
     (let result = \<lparr>extracted_text = [], cleaned_text = [], confidence = 0,
                    ocr_source = ''none'', notes_val = []\<rparr>
      in if truthy (GEMINI_API_KEY ev) then
           (let gemini = ocr_with_gemini ev image_bytes
            in if e_confidence gemini \<ge> 0.8 then
                 (result\<lparr>extracted_text := e_text gemini, ocr_source := ''gemini'',
                         confidence := e_confidence gemini\<rparr>, [Gemini])
               else if e_text gemini \<noteq> [] then
                 (let tesseract = ocr_with_tesseract ev image_bytes
                  in if e_confidence tesseract > e_confidence gemini then
                       (result\<lparr>extracted_text := e_text tesseract, ocr_source := ''tesseract'',
                               confidence := e_confidence tesseract\<rparr>, [Gemini, Tesseract])
                     else
                       (result\<lparr>extracted_text := e_text gemini, ocr_source := ''gemini'',
                               confidence := e_confidence gemini\<rparr>, [Gemini, Tesseract]))
               else
                 (let tesseract = ocr_with_tesseract ev image_bytes
                  in (result\<lparr>extracted_text := e_text tesseract, ocr_source := ''tesseract'',
                             confidence := e_confidence tesseract\<rparr>, [Gemini, Tesseract])))
         else
           (let tesseract = ocr_with_tesseract ev image_bytes
            in (result\<lparr>extracted_text := e_text tesseract, ocr_source := ''tesseract'',
                       confidence := e_confidence tesseract\<rparr>, [Tesseract])))"

text \<open>Lines 118 to 120: the normalization of the accepted text.\<close>

definition normalize :: "string \<Rightarrow> string" where
  "normalize s =
     (let cleaned = strip (lower s);
          cleaned = replace CHR ''5'' CHR ''s'' (replace CHR ''1'' CHR ''l'' (replace CHR ''0'' CHR ''o'' cleaned))
      in cleaned)"

text \<open>Lines 117 to 126: normalization and the advisory note.\<close>

definition postprocess :: "ocr_result \<Rightarrow> ocr_result" where
  "postprocess result =
     (let cleaned = normalize (extracted_text result);
          result = result\<lparr>cleaned_text := cleaned\<rparr>
      in if confidence result < 0.5
         then result\<lparr>notes_val := ''low_confidence: result may be inaccurate''\<rparr>
         else result)"

definition extract_text_with_fallback :: "env \<Rightarrow> bytes \<Rightarrow> ocr_result \<times> engine list" where
  "extract_text_with_fallback ev image_bytes =
     (let (result, calls) = arbitrate ev image_bytes
      in (postprocess result, calls))"

section \<open>The image classifier (src/cnn\_model.py)\<close>

text \<open>
  The trained network, as the program uses it: the body of the \<open>try\<close> of
  \<open>predict_stockcode_from_image\<close> up to \<open>preds[0]\<close> (opening and resizing the image,
  \<open>_model.predict\<close>), which gives the vector of class scores or raises.
\<close>

type_synonym cnn = "bytes \<Rightarrow> real list outcome"

text \<open>
  The global \<open>_label_map\<close> once it is not \<open>None\<close>. \<open>load_resources\<close> assigns it twice:
  first the dictionary \<open>json.load\<close> returns, whose keys are strings, then the dictionary
  with the keys converted by \<open>int\<close>. When a conversion raises, the global keeps the first
  one; no integer is a key of it.
\<close>

datatype label_map_state = StrKeys | IntKeys "int \<rightharpoonup> string"

text \<open>The module's globals \<open>_model\<close> and \<open>_label_map\<close>.\<close>

record resources =
  model :: "cnn option"
  label_map :: "label_map_state option"

text \<open>
  What is on disk at \<open>LABEL_MAP_PATH\<close>: a file that \<open>open\<close> or \<open>json.load\<close> rejects, a
  JSON object with a key that \<open>int\<close> rejects, or a JSON object whose keys all convert
  (its values are taken to be strings).
\<close>

datatype label_file = Unreadable string | BadKey string | Labels "int \<rightharpoonup> string"

text \<open>
  The two files; \<open>None\<close> when \<open>os.path.exists\<close> is false. For the model file, the outcome
  is that of \<open>tf.keras.models.load_model\<close>.
\<close>

record files =
  model_file :: "cnn outcome option"
  label_map_file :: "label_file option"

text \<open>
  \<open>load_resources\<close> updates the globals and may raise: nothing catches what
  \<open>load_model\<close>, \<open>open\<close>, \<open>json.load\<close> or \<open>int\<close> raise. The first component is the
  exception raised, if any; the second is the globals as the call leaves them.
\<close>

definition load_model :: "files \<Rightarrow> resources \<Rightarrow> string option \<times> resources" where
  "load_model fs g =
     (if model g = None then
        (case model_file fs of
           None \<Rightarrow> (None, g)
         | Some (Raised e) \<Rightarrow> (Some e, g)
         | Some (Returned m) \<Rightarrow> (None, g\<lparr>model := Some m\<rparr>))
      else (None, g))"

definition load_label_map :: "files \<Rightarrow> resources \<Rightarrow> string option \<times> resources" where
  "load_label_map fs g =
     (if label_map g = None then
        (case label_map_file fs of
           None \<Rightarrow> (None, g)
         | Some (Unreadable e) \<Rightarrow> (Some e, g)
         | Some (BadKey e) \<Rightarrow> (Some e, g\<lparr>label_map := Some StrKeys\<rparr>)
         | Some (Labels m) \<Rightarrow> (None, g\<lparr>label_map := Some (IntKeys m)\<rparr>))
      else (None, g))"

definition load_resources :: "files \<Rightarrow> resources \<Rightarrow> string option \<times> resources" where
  "load_resources fs g =
     (case load_model fs g of
        (Some e, g') \<Rightarrow> (Some e, g')
      | (None, g') \<Rightarrow> load_label_map fs g')"

text \<open>\<open>_label_map.get(pred_class_id, default)\<close>.\<close>

definition label_get :: "label_map_state \<Rightarrow> int \<Rightarrow> string \<Rightarrow> string" where
  "label_get lm k dflt =
     (case lm of
        StrKeys \<Rightarrow> dflt
      | IntKeys m \<Rightarrow> (case m k of None \<Rightarrow> dflt | Some v \<Rightarrow> v))"

text \<open>
  \<open>np.argmax\<close> and \<open>np.max\<close> of a vector that is not empty: the first index of the
  greatest entry, and the greatest entry.
\<close>

definition np_max :: "real list \<Rightarrow> real" where
  "np_max xs = fold max (tl xs) (hd xs)"

definition np_argmax :: "real list \<Rightarrow> nat" where
  "np_argmax xs = length (takeWhile (\<lambda>x. x \<noteq> np_max xs) xs)"

text \<open>
  The result is what the call raises or returns, with the globals it leaves. On an empty
  vector \<open>np.argmax\<close> raises inside the \<open>try\<close>.
\<close>

definition predict_stockcode_from_image ::
    "files \<Rightarrow> resources \<Rightarrow> bytes \<Rightarrow> (string \<times> real) outcome \<times> resources" where
  "predict_stockcode_from_image fs g image_bytes =
     (case load_resources fs g of
        (Some e, g') \<Rightarrow> (Raised e, g')
      | (None, g') \<Rightarrow>
          (if model g' = None \<or> label_map g' = None then (Returned (''ERROR'', 0), g')
           else
             (case the (model g') image_bytes of
                Raised e \<Rightarrow> (Returned (''ERROR'', 0), g')
              | Returned preds \<Rightarrow>
                  (if preds = [] then (Returned (''ERROR'', 0), g')
                   else
                     (let pred_class_id = int (np_argmax preds);
                          confidence = np_max preds;
                          stock_code = label_get (the (label_map g')) pred_class_id ''UNKNOWN''
                      in (Returned (stock_code, confidence), g'))))))"

section \<open>Auxiliary notions\<close>

text \<open>A text with no white space at either end.\<close>

definition trimmed :: "string \<Rightarrow> bool" where
  "trimmed s = (s = [] \<or> (\<not> isspace (hd s) \<and> \<not> isspace (last s)))"

text \<open>The rows the loop of \<open>ocr_with_tesseract\<close> keeps.\<close>

definition kept :: "string \<times> int \<Rightarrow> bool" where
  "kept row = (snd row > 30 \<and> strip (fst row) \<noteq> [])"

text \<open>
  An environment whose engines give the same outcome on every image; the examples below
  are stated on such environments.
\<close>

definition fixed_env ::
    "string option \<Rightarrow> string option outcome \<Rightarrow> (string \<times> int) list outcome \<Rightarrow> env" where
  "fixed_env key cloud local_rows =
     \<lparr>GEMINI_API_KEY = key,
      generate_content = (\<lambda>image_bytes. cloud),
      image_to_data = (\<lambda>image_bytes. local_rows)\<rparr>"

text \<open>A network whose inference raises on every image.\<close>

definition failing_cnn :: cnn where
  "failing_cnn image_bytes = Raised ''cannot identify image file''"

section \<open>The two steps of the arbitration\<close>

lemma fst_extract:
  "fst (extract_text_with_fallback ev image_bytes) = postprocess (fst (arbitrate ev image_bytes))"
  by (simp add: extract_text_with_fallback_def split: prod.split)

lemma snd_extract:
  "snd (extract_text_with_fallback ev image_bytes) = snd (arbitrate ev image_bytes)"
  by (simp add: extract_text_with_fallback_def split: prod.split)

lemma postprocess_fields:
  "extracted_text (postprocess r) = extracted_text r"
  "confidence (postprocess r) = confidence r"
  "ocr_source (postprocess r) = ocr_source r"
  "cleaned_text (postprocess r) = normalize (extracted_text r)"
  by (simp_all add: postprocess_def Let_def)

lemma postprocess_notes:
  "notes_val (postprocess r) =
     (if confidence r < 0.5 then ''low_confidence: result may be inaccurate'' else notes_val r)"
  by (simp add: postprocess_def Let_def)

lemma arbitrate_notes: "notes_val (fst (arbitrate ev image_bytes)) = []"
  by (simp add: arbitrate_def Let_def)

lemma arbitrate_high:
  assumes "truthy (GEMINI_API_KEY ev)"
    and "0.8 \<le> e_confidence (ocr_with_gemini ev image_bytes)"
  shows "arbitrate ev image_bytes =
    (\<lparr>extracted_text = e_text (ocr_with_gemini ev image_bytes), cleaned_text = [],
      confidence = e_confidence (ocr_with_gemini ev image_bytes), ocr_source = ''gemini'',
      notes_val = []\<rparr>, [Gemini])"
  using assms by (simp add: arbitrate_def Let_def)

lemma arbitrate_compare:
  assumes "truthy (GEMINI_API_KEY ev)"
    and "e_confidence (ocr_with_gemini ev image_bytes) < 0.8"
    and "e_text (ocr_with_gemini ev image_bytes) \<noteq> []"
  shows "arbitrate ev image_bytes =
    (if e_confidence (ocr_with_tesseract ev image_bytes) > e_confidence (ocr_with_gemini ev image_bytes)
     then \<lparr>extracted_text = e_text (ocr_with_tesseract ev image_bytes), cleaned_text = [],
       confidence = e_confidence (ocr_with_tesseract ev image_bytes), ocr_source = ''tesseract'',
       notes_val = []\<rparr>
     else \<lparr>extracted_text = e_text (ocr_with_gemini ev image_bytes), cleaned_text = [],
       confidence = e_confidence (ocr_with_gemini ev image_bytes), ocr_source = ''gemini'',
       notes_val = []\<rparr>, [Gemini, Tesseract])"
  using assms by (simp add: arbitrate_def Let_def)

lemma arbitrate_cloud_empty:
  assumes "truthy (GEMINI_API_KEY ev)"
    and "e_confidence (ocr_with_gemini ev image_bytes) < 0.8"
    and "e_text (ocr_with_gemini ev image_bytes) = []"
  shows "arbitrate ev image_bytes =
    (\<lparr>extracted_text = e_text (ocr_with_tesseract ev image_bytes), cleaned_text = [],
      confidence = e_confidence (ocr_with_tesseract ev image_bytes), ocr_source = ''tesseract'',
      notes_val = []\<rparr>, [Gemini, Tesseract])"
  using assms by (simp add: arbitrate_def Let_def)

lemma arbitrate_no_key:
  assumes "\<not> truthy (GEMINI_API_KEY ev)"
  shows "arbitrate ev image_bytes =
    (\<lparr>extracted_text = e_text (ocr_with_tesseract ev image_bytes), cleaned_text = [],
      confidence = e_confidence (ocr_with_tesseract ev image_bytes), ocr_source = ''tesseract'',
      notes_val = []\<rparr>, [Tesseract])"
  using assms by (simp add: arbitrate_def Let_def)

lemma tesseract_ignores_cloud:
  "ocr_with_tesseract (ev\<lparr>generate_content := g\<rparr>) image_bytes = ocr_with_tesseract ev image_bytes"
  by (simp add: ocr_with_tesseract_def)

lemma fixed_env_fields:
  "GEMINI_API_KEY (fixed_env key cloud local_rows) = key"
  "generate_content (fixed_env key cloud local_rows) image_bytes = cloud"
  "image_to_data (fixed_env key cloud local_rows) image_bytes = local_rows"
  by (simp_all add: fixed_env_def)

lemma strip_examples:
  "strip ''Hello World'' = ''Hello World''"
  "strip ''Hi'' = ''Hi''"
  "strip ''Hello015'' = ''Hello015''"
  "strip ''ab'' = ''ab''"
  "strip ''  '' = []"
  by (simp_all add: strip_def isspace_def)

section \<open>The arbitration policy\<close>

text \<open>
  C1. With a credential configured, when the confidence of \<open>ocr_with_gemini\<close> is at least
  0.8, the result's \<open>ocr_source\<close> is \<open>gemini\<close> and its \<open>extracted_text\<close> is the text of the
  dictionary \<open>ocr_with_gemini\<close> returned, unchanged by the normalization (which only fills
  \<open>cleaned_text\<close>), for every image.
\<close>

theorem cloud_accepted_outright:
  assumes "truthy (GEMINI_API_KEY ev)"
    and "0.8 \<le> e_confidence (ocr_with_gemini ev image_bytes)"
  shows "ocr_source (fst (extract_text_with_fallback ev image_bytes)) = ''gemini'' \<and>
         extracted_text (fst (extract_text_with_fallback ev image_bytes)) =
           e_text (ocr_with_gemini ev image_bytes)"
  using assms by (simp add: fst_extract postprocess_fields arbitrate_high)

theorem cloud_accepted_outright_witness:
  "truthy (GEMINI_API_KEY
     (fixed_env (Some ''key'') (Returned (Some ''Hello World'')) (Raised ''not called''))) \<and>
   0.8 \<le> e_confidence (ocr_with_gemini
     (fixed_env (Some ''key'') (Returned (Some ''Hello World'')) (Raised ''not called'')) [1, 2]) \<and>
   ocr_source (fst (extract_text_with_fallback
     (fixed_env (Some ''key'') (Returned (Some ''Hello World'')) (Raised ''not called'')) [1, 2]))
     = ''gemini'' \<and>
   extracted_text (fst (extract_text_with_fallback
     (fixed_env (Some ''key'') (Returned (Some ''Hello World'')) (Raised ''not called'')) [1, 2]))
     = ''Hello World''"
  using cloud_accepted_outright
    [of "fixed_env (Some ''key'') (Returned (Some ''Hello World'')) (Raised ''not called'')" "[1, 2]"]
  by (simp add: truthy_def ocr_with_gemini_def fixed_env_fields strip_examples)

text \<open>
  C7. For every image and every outcome of the arbitration, the result carries the
  low-confidence note exactly when its final confidence is below 0.5, and has the empty
  note exactly when the confidence is 0.5 or more. The note changes no other key, and the
  dictionary is returned in both cases.
\<close>

theorem advisory_note_iff:
  "(notes_val (fst (extract_text_with_fallback ev image_bytes))
      = ''low_confidence: result may be inaccurate'')
     = (confidence (fst (extract_text_with_fallback ev image_bytes)) < 0.5) \<and>
   (notes_val (fst (extract_text_with_fallback ev image_bytes)) = [])
     = (0.5 \<le> confidence (fst (extract_text_with_fallback ev image_bytes)))"
  by (simp add: fst_extract postprocess_fields postprocess_notes arbitrate_notes)

text \<open>
  C10. For every image, with or without a credential, the \<open>ocr_source\<close> of the result is
  \<open>gemini\<close> or \<open>tesseract\<close>: the initial value \<open>none\<close> is overwritten on every path.
\<close>

theorem source_always_set:
  "(ocr_source (fst (extract_text_with_fallback ev image_bytes)) = ''gemini'' \<or>
    ocr_source (fst (extract_text_with_fallback ev image_bytes)) = ''tesseract'') \<and>
   ocr_source (fst (extract_text_with_fallback ev image_bytes)) \<noteq> ''none''"
  by (simp add: fst_extract postprocess_fields arbitrate_def Let_def)

section \<open>The engine wrappers\<close>

lemma collect_filter:
  "collect data ws cs =
     (ws @ map (\<lambda>row. strip (fst row)) (filter kept data), cs @ map snd (filter kept data))"
  by (induction data ws cs rule: collect.induct) (simp_all add: kept_def Let_def)

lemma tesseract_returned:
  assumes "image_to_data ev image_bytes = Returned data"
  shows "ocr_with_tesseract ev image_bytes =
    \<lparr>e_text = join '' '' (map (\<lambda>row. strip (fst row)) (filter kept data)),
     e_confidence =
       (if filter kept data = [] then 0
        else real_of_int (sum_list (map snd (filter kept data))) / real (length (filter kept data))) / 100,
     e_error = None\<rparr>"
  using assms by (simp add: ocr_with_tesseract_def collect_filter)

lemma tesseract_raised:
  assumes "image_to_data ev image_bytes = Raised e"
  shows "ocr_with_tesseract ev image_bytes = \<lparr>e_text = [], e_confidence = 0, e_error = Some e\<rparr>"
  using assms by (simp add: ocr_with_tesseract_def)

lemma gemini_raised:
  assumes "generate_content ev image_bytes = Raised e"
  shows "e_text (ocr_with_gemini ev image_bytes) = [] \<and> e_confidence (ocr_with_gemini ev image_bytes) = 0"
  using assms by (simp add: ocr_with_gemini_def)

lemma gemini_returned:
  assumes "truthy (GEMINI_API_KEY ev)" "generate_content ev image_bytes = Returned (Some t)"
  shows "ocr_with_gemini ev image_bytes =
    \<lparr>e_text = strip t, e_confidence = (if length (strip t) > 5 then 0.95 else 0.7), e_error = None\<rparr>"
  using assms by (cases "t = []") (simp_all add: ocr_with_gemini_def truthy_def Let_def strip_def)

section \<open>The arbitration policy, continued\<close>

text \<open>
  C2. With a credential configured, when the confidence of \<open>ocr_with_gemini\<close> is in
  [0, 0.8) and its text is not empty, \<open>ocr_with_tesseract\<close> is called after
  \<open>ocr_with_gemini\<close>, and the result takes text, source and confidence from
  \<open>ocr_with_tesseract\<close> when its confidence is strictly higher, and from
  \<open>ocr_with_gemini\<close> otherwise (so also when the two confidences are equal).
\<close>

theorem low_cloud_confidence_compares:
  assumes "truthy (GEMINI_API_KEY ev)"
    and "0 \<le> e_confidence (ocr_with_gemini ev image_bytes)"
    and "e_confidence (ocr_with_gemini ev image_bytes) < 0.8"
    and "e_text (ocr_with_gemini ev image_bytes) \<noteq> []"
  shows "snd (extract_text_with_fallback ev image_bytes) = [Gemini, Tesseract] \<and>
    (if e_confidence (ocr_with_tesseract ev image_bytes) > e_confidence (ocr_with_gemini ev image_bytes)
     then extracted_text (fst (extract_text_with_fallback ev image_bytes)) = e_text (ocr_with_tesseract ev image_bytes) \<and>
          ocr_source (fst (extract_text_with_fallback ev image_bytes)) = ''tesseract'' \<and>
          confidence (fst (extract_text_with_fallback ev image_bytes)) = e_confidence (ocr_with_tesseract ev image_bytes)
     else extracted_text (fst (extract_text_with_fallback ev image_bytes)) = e_text (ocr_with_gemini ev image_bytes) \<and>
          ocr_source (fst (extract_text_with_fallback ev image_bytes)) = ''gemini'' \<and>
          confidence (fst (extract_text_with_fallback ev image_bytes)) = e_confidence (ocr_with_gemini ev image_bytes))"
  using assms(1,3,4) by (simp add: fst_extract snd_extract postprocess_fields arbitrate_compare)

text \<open>
  The example has a tie: the cloud text \<open>Hi\<close> has the heuristic confidence 0.7, and the
  only row of the local table has confidence 70. The cloud engine wins.
\<close>

lemma tie_example_gemini:
  "ocr_with_gemini (fixed_env (Some ''key'') (Returned (Some ''Hi'')) (Returned [(''Hi'', 70)])) [1, 2]
   = \<lparr>e_text = ''Hi'', e_confidence = 0.7, e_error = None\<rparr>"
  by (simp add: gemini_returned truthy_def fixed_env_fields strip_examples)

lemma tie_example_tesseract:
  "ocr_with_tesseract (fixed_env (Some ''key'') (Returned (Some ''Hi'')) (Returned [(''Hi'', 70)])) [1, 2]
   = \<lparr>e_text = ''Hi'', e_confidence = 0.7, e_error = None\<rparr>"
  by (simp add: tesseract_returned fixed_env_fields kept_def strip_examples)

theorem low_cloud_confidence_compares_witness:
  "truthy (GEMINI_API_KEY (fixed_env (Some ''key'') (Returned (Some ''Hi'')) (Returned [(''Hi'', 70)]))) \<and>
   0 \<le> e_confidence (ocr_with_gemini
     (fixed_env (Some ''key'') (Returned (Some ''Hi'')) (Returned [(''Hi'', 70)])) [1, 2]) \<and>
   e_confidence (ocr_with_gemini
     (fixed_env (Some ''key'') (Returned (Some ''Hi'')) (Returned [(''Hi'', 70)])) [1, 2]) < 0.8 \<and>
   e_text (ocr_with_gemini
     (fixed_env (Some ''key'') (Returned (Some ''Hi'')) (Returned [(''Hi'', 70)])) [1, 2]) \<noteq> [] \<and>
   e_confidence (ocr_with_tesseract
     (fixed_env (Some ''key'') (Returned (Some ''Hi'')) (Returned [(''Hi'', 70)])) [1, 2]) =
   e_confidence (ocr_with_gemini
     (fixed_env (Some ''key'') (Returned (Some ''Hi'')) (Returned [(''Hi'', 70)])) [1, 2]) \<and>
   snd (extract_text_with_fallback
     (fixed_env (Some ''key'') (Returned (Some ''Hi'')) (Returned [(''Hi'', 70)])) [1, 2])
     = [Gemini, Tesseract] \<and>
   ocr_source (fst (extract_text_with_fallback
     (fixed_env (Some ''key'') (Returned (Some ''Hi'')) (Returned [(''Hi'', 70)])) [1, 2]))
     = ''gemini'' \<and>
   confidence (fst (extract_text_with_fallback
     (fixed_env (Some ''key'') (Returned (Some ''Hi'')) (Returned [(''Hi'', 70)])) [1, 2]))
     = 0.7"
  using low_cloud_confidence_compares
    [of "fixed_env (Some ''key'') (Returned (Some ''Hi'')) (Returned [(''Hi'', 70)])" "[1, 2]"]
  by (simp add: tie_example_gemini tie_example_tesseract truthy_def fixed_env_fields)

text \<open>
  C5. For every image, when no credential is configured (the variable is unset or empty),
  the only wrapper called is \<open>ocr_with_tesseract\<close>, the result's \<open>ocr_source\<close> is
  \<open>tesseract\<close>, its \<open>extracted_text\<close> and \<open>confidence\<close> are the text and the confidence
  \<open>ocr_with_tesseract\<close> returned, and the whole result does not depend on the cloud
  engine: replacing it by any other engine \<open>g\<close> gives the same result.
\<close>

theorem no_credential_local_only:
  assumes "\<not> truthy (GEMINI_API_KEY ev)"
  shows "snd (extract_text_with_fallback ev image_bytes) = [Tesseract] \<and>
         ocr_source (fst (extract_text_with_fallback ev image_bytes)) = ''tesseract'' \<and>
         extracted_text (fst (extract_text_with_fallback ev image_bytes)) =
           e_text (ocr_with_tesseract ev image_bytes) \<and>
         confidence (fst (extract_text_with_fallback ev image_bytes)) =
           e_confidence (ocr_with_tesseract ev image_bytes) \<and>
         extract_text_with_fallback (ev\<lparr>generate_content := g\<rparr>) image_bytes =
           extract_text_with_fallback ev image_bytes"
proof -
  from assms have k: "\<not> truthy (GEMINI_API_KEY (ev\<lparr>generate_content := g\<rparr>))" by simp
  have "arbitrate (ev\<lparr>generate_content := g\<rparr>) image_bytes = arbitrate ev image_bytes"
    by (simp only: arbitrate_no_key [OF k] arbitrate_no_key [OF assms] tesseract_ignores_cloud)
  then have "extract_text_with_fallback (ev\<lparr>generate_content := g\<rparr>) image_bytes =
           extract_text_with_fallback ev image_bytes"
    by (simp add: extract_text_with_fallback_def)
  with assms show ?thesis
    by (simp add: fst_extract snd_extract postprocess_fields arbitrate_no_key)
qed

text \<open>
  In the example the cloud engine would return \<open>Hello World\<close> with confidence 0.95; with
  no credential the result is the local engine's \<open>Hi\<close> with confidence 0.7.
\<close>

lemma no_key_example_tesseract:
  "ocr_with_tesseract
     (fixed_env None (Returned (Some ''Hello World'')) (Returned [(''Hi'', 70)])) [1, 2]
   = \<lparr>e_text = ''Hi'', e_confidence = 0.7, e_error = None\<rparr>"
  by (simp add: tesseract_returned fixed_env_fields kept_def strip_examples)

theorem no_credential_local_only_witness:
  "\<not> truthy (GEMINI_API_KEY (fixed_env None (Returned (Some ''Hello World'')) (Returned [(''Hi'', 70)]))) \<and>
   snd (extract_text_with_fallback
     (fixed_env None (Returned (Some ''Hello World'')) (Returned [(''Hi'', 70)])) [1, 2]) = [Tesseract] \<and>
   ocr_source (fst (extract_text_with_fallback
     (fixed_env None (Returned (Some ''Hello World'')) (Returned [(''Hi'', 70)])) [1, 2])) = ''tesseract'' \<and>
   extracted_text (fst (extract_text_with_fallback
     (fixed_env None (Returned (Some ''Hello World'')) (Returned [(''Hi'', 70)])) [1, 2])) = ''Hi'' \<and>
   confidence (fst (extract_text_with_fallback
     (fixed_env None (Returned (Some ''Hello World'')) (Returned [(''Hi'', 70)])) [1, 2])) = 0.7"
  using no_credential_local_only
    [of "fixed_env None (Returned (Some ''Hello World'')) (Returned [(''Hi'', 70)])" "[1, 2]"]
  by (simp add: truthy_def fixed_env_fields no_key_example_tesseract)

section \<open>Normalization\<close>

lemma normalize_examples:
  "normalize [] = []"
  "normalize ''Hello015'' = ''hellools''"
  by code_simp+

lemma postprocess_record:
  "postprocess \<lparr>extracted_text = t, cleaned_text = c, confidence = x, ocr_source = s, notes_val = []\<rparr> =
     \<lparr>extracted_text = t, cleaned_text = normalize t, confidence = x, ocr_source = s,
      notes_val = (if x < 0.5 then ''low_confidence: result may be inaccurate'' else [])\<rparr>"
  by (simp add: postprocess_def Let_def)

lemma lower_char_idem: "lower_char (lower_char c) = lower_char c"
  by (auto simp: lower_char_def Let_def of_char_of)

lemma dropWhile_fixed: "s = [] \<or> \<not> P (hd s) \<Longrightarrow> dropWhile P s = s"
  by (cases s) auto

lemma last_dropWhile: "dropWhile P xs \<noteq> [] \<Longrightarrow> last (dropWhile P xs) = last xs"
  by (induction xs) (auto split: if_splits)

lemma strip_trimmed_id:
  assumes "trimmed s"
  shows "strip s = s"
proof (cases "s = []")
  case True
  then show ?thesis by (simp add: strip_def)
next
  case False
  with assms have h: "\<not> isspace (hd s)" and l: "\<not> isspace (last s)"
    by (simp_all add: trimmed_def)
  from h have "dropWhile isspace s = s"
    by (simp add: dropWhile_fixed)
  moreover from l False have "dropWhile isspace (rev s) = rev s"
    by (simp add: dropWhile_fixed hd_rev)
  ultimately show ?thesis
    by (simp add: strip_def)
qed

lemma trimmed_strip: "trimmed (strip s)"
proof (cases "strip s = []")
  case True
  then show ?thesis by (simp add: trimmed_def)
next
  case False
  define t where "t = dropWhile isspace s"
  define u where "u = dropWhile isspace (rev t)"
  have su: "strip s = rev u"
    by (simp add: strip_def t_def u_def)
  with False have u: "u \<noteq> []" by simp
  then have t: "t \<noteq> []" by (auto simp: u_def)
  from u have "\<not> isspace (hd u)"
    unfolding u_def by (rule hd_dropWhile)
  then have l: "\<not> isspace (last (strip s))"
    using u by (simp add: su last_rev)
  from u have "last u = last (rev t)"
    unfolding u_def by (rule last_dropWhile)
  also have "\<dots> = hd t" using t by (simp add: last_rev)
  finally have "last u = hd t" .
  moreover from t have "\<not> isspace (hd t)"
    unfolding t_def by (rule hd_dropWhile)
  ultimately have "\<not> isspace (hd (strip s))"
    using u by (simp add: su hd_rev)
  with l show ?thesis by (simp add: trimmed_def)
qed

lemma set_strip: "set (strip s) \<subseteq> set s"
proof -
  have "set (strip s) \<subseteq> set (rev (dropWhile isspace s))"
    unfolding strip_def set_rev by (auto dest: set_dropWhileD)
  also have "\<dots> \<subseteq> set s" by (auto dest: set_dropWhileD)
  finally show ?thesis .
qed

lemma trimmed_replace: "trimmed s \<Longrightarrow> \<not> isspace new \<Longrightarrow> trimmed (replace old new s)"
  by (cases "s = []") (auto simp: trimmed_def replace_def hd_map last_map)

lemma replace_absent: "old \<notin> set s \<Longrightarrow> replace old new s = s"
  by (induction s) (auto simp: replace_def)

lemma set_replace: "old \<noteq> new \<Longrightarrow> set (replace old new s) \<subseteq> insert new (set s - {old})"
  by (auto simp: replace_def)

lemma lower_fixed: "\<forall>c \<in> set s. lower_char c = c \<Longrightarrow> lower s = s"
  by (simp add: lower_def map_idI)

lemma letters_fixed:
  "lower_char CHR ''o'' = CHR ''o''" "lower_char CHR ''l'' = CHR ''l''"
  "lower_char CHR ''s'' = CHR ''s''"
  "\<not> isspace CHR ''o''" "\<not> isspace CHR ''l''" "\<not> isspace CHR ''s''"
  by (simp_all add: lower_char_def isspace_def)

lemma lowered_replace:
  "\<forall>c \<in> set s. lower_char c = c \<Longrightarrow> lower_char new = new \<Longrightarrow>
   \<forall>c \<in> set (replace old new s). lower_char c = c"
  by (auto simp: replace_def)

lemma normalize_unfold:
  "normalize s = replace CHR ''5'' CHR ''s'' (replace CHR ''1'' CHR ''l''
     (replace CHR ''0'' CHR ''o'' (strip (lower s))))"
  by (simp add: normalize_def Let_def)

lemma normalize_props:
  "trimmed (normalize s)"
  "\<forall>c \<in> set (normalize s). lower_char c = c"
  "CHR ''0'' \<notin> set (normalize s)"
  "CHR ''1'' \<notin> set (normalize s)"
  "CHR ''5'' \<notin> set (normalize s)"
proof -
  define a where "a = strip (lower s)"
  define b where "b = replace CHR ''0'' CHR ''o'' a"
  define c where "c = replace CHR ''1'' CHR ''l'' b"
  define d where "d = replace CHR ''5'' CHR ''s'' c"
  have n: "normalize s = d"
    by (simp add: normalize_unfold a_def b_def c_def d_def)
  have "trimmed a" by (simp add: a_def trimmed_strip)
  then have "trimmed d"
    by (simp add: b_def c_def d_def trimmed_replace letters_fixed)
  then show "trimmed (normalize s)" by (simp add: n)
  have "\<forall>x \<in> set (lower s). lower_char x = x"
    by (auto simp: lower_def lower_char_idem)
  then have "\<forall>x \<in> set a. lower_char x = x"
    using set_strip [of "lower s"] by (auto simp: a_def)
  then have "\<forall>x \<in> set d. lower_char x = x"
    unfolding b_def c_def d_def by (intro lowered_replace letters_fixed)
  then show "\<forall>c \<in> set (normalize s). lower_char c = c" by (simp add: n)
  have b0: "CHR ''0'' \<notin> set b"
    using set_replace [of "CHR ''0''" "CHR ''o''" a] by (auto simp: b_def)
  have c0: "CHR ''0'' \<notin> set c" and c1: "CHR ''1'' \<notin> set c"
    using b0 set_replace [of "CHR ''1''" "CHR ''l''" b] by (auto simp: c_def)
  have "CHR ''0'' \<notin> set d" and "CHR ''1'' \<notin> set d" and "CHR ''5'' \<notin> set d"
    using c0 c1 set_replace [of "CHR ''5''" "CHR ''s''" c] by (auto simp: d_def)
  then show "CHR ''0'' \<notin> set (normalize s)" "CHR ''1'' \<notin> set (normalize s)"
    "CHR ''5'' \<notin> set (normalize s)"
    by (simp_all add: n)
qed

text \<open>
  C8. The normalization (lower case, strip, then the replacements of \<open>0\<close> by \<open>o\<close>, \<open>1\<close>
  by \<open>l\<close> and \<open>5\<close> by \<open>s\<close>) is idempotent: normalizing a normalized text gives the same
  text, and so does applying the three replacements to it again.
\<close>

theorem normalize_idempotent:
  "normalize (normalize s) = normalize s \<and>
   replace CHR ''5'' CHR ''s'' (replace CHR ''1'' CHR ''l''
     (replace CHR ''0'' CHR ''o'' (normalize s))) = normalize s"
proof -
  have l: "lower (normalize s) = normalize s"
    by (rule lower_fixed) (rule normalize_props)
  have t: "strip (normalize s) = normalize s"
    by (rule strip_trimmed_id) (rule normalize_props)
  have r: "replace CHR ''5'' CHR ''s'' (replace CHR ''1'' CHR ''l''
     (replace CHR ''0'' CHR ''o'' (normalize s))) = normalize s"
    by (simp add: replace_absent normalize_props)
  have "normalize (normalize s) = replace CHR ''5'' CHR ''s'' (replace CHR ''1'' CHR ''l''
     (replace CHR ''0'' CHR ''o'' (strip (lower (normalize s)))))"
    by (rule normalize_unfold)
  with l t r show ?thesis by simp
qed

text \<open>
  C4, as the program computes it. When a credential is configured and the cloud engine
  returns \<open>Hello015\<close>, the result has \<open>extracted_text\<close> \<open>Hello015\<close>, \<open>ocr_source\<close>
  \<open>gemini\<close>, \<open>confidence\<close> 0.95 and an empty note, only \<open>ocr_with_gemini\<close> is called, and
  the \<open>cleaned_text\<close> is \<open>hellools\<close>: the replacements put a letter where a digit was and
  add no space.
\<close>

theorem hello015_example:
  assumes "truthy (GEMINI_API_KEY ev)"
    and "generate_content ev image_bytes = Returned (Some ''Hello015'')"
  shows "extract_text_with_fallback ev image_bytes =
    (\<lparr>extracted_text = ''Hello015'', cleaned_text = ''hellools'', confidence = 0.95,
      ocr_source = ''gemini'', notes_val = []\<rparr>, [Gemini])"
proof -
  from assms have g: "ocr_with_gemini ev image_bytes =
      \<lparr>e_text = ''Hello015'', e_confidence = 0.95, e_error = None\<rparr>"
    by (simp add: gemini_returned strip_examples)
  with assms(1) have "arbitrate ev image_bytes =
    (\<lparr>extracted_text = ''Hello015'', cleaned_text = [], confidence = 0.95,
      ocr_source = ''gemini'', notes_val = []\<rparr>, [Gemini])"
    by (simp add: arbitrate_high)
  then show ?thesis
    by (simp add: extract_text_with_fallback_def postprocess_record normalize_examples)
qed

theorem hello015_example_witness:
  "truthy (GEMINI_API_KEY
     (fixed_env (Some ''key'') (Returned (Some ''Hello015'')) (Raised ''not called''))) \<and>
   generate_content
     (fixed_env (Some ''key'') (Returned (Some ''Hello015'')) (Raised ''not called'')) [1, 2]
     = Returned (Some ''Hello015'') \<and>
   extract_text_with_fallback
     (fixed_env (Some ''key'') (Returned (Some ''Hello015'')) (Raised ''not called'')) [1, 2] =
    (\<lparr>extracted_text = ''Hello015'', cleaned_text = ''hellools'', confidence = 0.95,
      ocr_source = ''gemini'', notes_val = []\<rparr>, [Gemini])"
  using hello015_example
    [of "fixed_env (Some ''key'') (Returned (Some ''Hello015'')) (Raised ''not called'')" "[1, 2]"]
  by (simp add: truthy_def fixed_env_fields)

text \<open>
  C4 as stated gives \<open>hello ols\<close>, with a space, for the \<open>cleaned_text\<close>. On that input
  the program's \<open>cleaned_text\<close> is a different text.
\<close>

theorem hello015_cleaned_text_has_no_space:
  "cleaned_text (fst (extract_text_with_fallback
     (fixed_env (Some ''key'') (Returned (Some ''Hello015'')) (Raised ''not called'')) [1, 2]))
   \<noteq> ''hello ols''"
proof -
  have "ocr_with_gemini
     (fixed_env (Some ''key'') (Returned (Some ''Hello015'')) (Raised ''not called'')) [1, 2] =
      \<lparr>e_text = ''Hello015'', e_confidence = 0.95, e_error = None\<rparr>"
    by (simp add: gemini_returned strip_examples truthy_def fixed_env_fields)
  then have "arbitrate
     (fixed_env (Some ''key'') (Returned (Some ''Hello015'')) (Raised ''not called'')) [1, 2] =
    (\<lparr>extracted_text = ''Hello015'', cleaned_text = [], confidence = 0.95,
      ocr_source = ''gemini'', notes_val = []\<rparr>, [Gemini])"
    by (simp add: arbitrate_high truthy_def fixed_env_fields)
  then show ?thesis
    by (simp add: fst_extract postprocess_fields normalize_examples)
qed

section \<open>Exceptions of the engines\<close>

text \<open>
  C6. An exception raised inside an engine call is caught by that engine's wrapper, which
  returns the text \<open>""\<close> with confidence 0.0. The wrappers return a dictionary in every
  case, and \<open>extract_text_with_fallback\<close> raises nowhere else, so it returns a dictionary
  for every image: when the cloud call raises, the result is the local engine's, and
  when both calls raise it is the empty text with confidence 0 and the low-confidence
  note.
\<close>

theorem engine_exceptions_caught:
  "(generate_content ev image_bytes = Raised e \<longrightarrow>
      e_text (ocr_with_gemini ev image_bytes) = [] \<and>
      e_confidence (ocr_with_gemini ev image_bytes) = 0) \<and>
   (image_to_data ev image_bytes = Raised e' \<longrightarrow>
      e_text (ocr_with_tesseract ev image_bytes) = [] \<and>
      e_confidence (ocr_with_tesseract ev image_bytes) = 0) \<and>
   (truthy (GEMINI_API_KEY ev) \<and> generate_content ev image_bytes = Raised e \<longrightarrow>
      extracted_text (fst (extract_text_with_fallback ev image_bytes)) =
        e_text (ocr_with_tesseract ev image_bytes) \<and>
      confidence (fst (extract_text_with_fallback ev image_bytes)) =
        e_confidence (ocr_with_tesseract ev image_bytes) \<and>
      ocr_source (fst (extract_text_with_fallback ev image_bytes)) = ''tesseract'') \<and>
   (generate_content ev image_bytes = Raised e \<and> image_to_data ev image_bytes = Raised e' \<longrightarrow>
      fst (extract_text_with_fallback ev image_bytes) =
        \<lparr>extracted_text = [], cleaned_text = [], confidence = 0, ocr_source = ''tesseract'',
         notes_val = ''low_confidence: result may be inaccurate''\<rparr>)"
proof (intro conjI impI)
  assume g: "generate_content ev image_bytes = Raised e"
  then show "e_text (ocr_with_gemini ev image_bytes) = []"
    and "e_confidence (ocr_with_gemini ev image_bytes) = 0"
    by (simp_all add: gemini_raised)
next
  assume "image_to_data ev image_bytes = Raised e'"
  then show "e_text (ocr_with_tesseract ev image_bytes) = []"
    and "e_confidence (ocr_with_tesseract ev image_bytes) = 0"
    by (simp_all add: tesseract_raised)
next
  assume a: "truthy (GEMINI_API_KEY ev) \<and> generate_content ev image_bytes = Raised e"
  then have "e_confidence (ocr_with_gemini ev image_bytes) < 0.8"
    and "e_text (ocr_with_gemini ev image_bytes) = []"
    by (simp_all add: gemini_raised)
  with a have arb: "arbitrate ev image_bytes =
    (\<lparr>extracted_text = e_text (ocr_with_tesseract ev image_bytes), cleaned_text = [],
      confidence = e_confidence (ocr_with_tesseract ev image_bytes), ocr_source = ''tesseract'',
      notes_val = []\<rparr>, [Gemini, Tesseract])"
    by (simp add: arbitrate_cloud_empty)
  show "extracted_text (fst (extract_text_with_fallback ev image_bytes)) =
        e_text (ocr_with_tesseract ev image_bytes)"
    and "confidence (fst (extract_text_with_fallback ev image_bytes)) =
        e_confidence (ocr_with_tesseract ev image_bytes)"
    and "ocr_source (fst (extract_text_with_fallback ev image_bytes)) = ''tesseract''"
    by (simp_all add: fst_extract postprocess_fields arb)
next
  assume b: "generate_content ev image_bytes = Raised e \<and> image_to_data ev image_bytes = Raised e'"
  then have t: "ocr_with_tesseract ev image_bytes = \<lparr>e_text = [], e_confidence = 0, e_error = Some e'\<rparr>"
    by (simp add: tesseract_raised)
  from b have g: "e_confidence (ocr_with_gemini ev image_bytes) < 0.8"
    "e_text (ocr_with_gemini ev image_bytes) = []"
    by (simp_all add: gemini_raised)
  have "fst (arbitrate ev image_bytes) =
    \<lparr>extracted_text = [], cleaned_text = [], confidence = 0, ocr_source = ''tesseract'', notes_val = []\<rparr>"
  proof (cases "truthy (GEMINI_API_KEY ev)")
    case True
    with g t show ?thesis by (simp add: arbitrate_cloud_empty)
  next
    case False
    with t show ?thesis by (simp add: arbitrate_no_key)
  qed
  then show "fst (extract_text_with_fallback ev image_bytes) =
        \<lparr>extracted_text = [], cleaned_text = [], confidence = 0, ocr_source = ''tesseract'',
         notes_val = ''low_confidence: result may be inaccurate''\<rparr>"
    by (simp add: fst_extract postprocess_record normalize_examples)
qed

theorem engine_exceptions_caught_witness:
  "truthy (GEMINI_API_KEY (fixed_env (Some ''key'') (Raised ''timed out'') (Raised ''not installed''))) \<and>
   generate_content (fixed_env (Some ''key'') (Raised ''timed out'') (Raised ''not installed'')) [1, 2]
     = Raised ''timed out'' \<and>
   image_to_data (fixed_env (Some ''key'') (Raised ''timed out'') (Raised ''not installed'')) [1, 2]
     = Raised ''not installed'' \<and>
   e_text (ocr_with_gemini
     (fixed_env (Some ''key'') (Raised ''timed out'') (Raised ''not installed'')) [1, 2]) = [] \<and>
   e_confidence (ocr_with_gemini
     (fixed_env (Some ''key'') (Raised ''timed out'') (Raised ''not installed'')) [1, 2]) = 0 \<and>
   e_text (ocr_with_tesseract
     (fixed_env (Some ''key'') (Raised ''timed out'') (Raised ''not installed'')) [1, 2]) = [] \<and>
   e_confidence (ocr_with_tesseract
     (fixed_env (Some ''key'') (Raised ''timed out'') (Raised ''not installed'')) [1, 2]) = 0 \<and>
   fst (extract_text_with_fallback
     (fixed_env (Some ''key'') (Raised ''timed out'') (Raised ''not installed'')) [1, 2]) =
     \<lparr>extracted_text = [], cleaned_text = [], confidence = 0, ocr_source = ''tesseract'',
      notes_val = ''low_confidence: result may be inaccurate''\<rparr>"
  using engine_exceptions_caught
    [of "fixed_env (Some ''key'') (Raised ''timed out'') (Raised ''not installed'')" "[1, 2]"
        "''timed out''" "''not installed''"]
  by (simp add: truthy_def fixed_env_fields)

section \<open>The confidence of the local engine\<close>

text \<open>
  C3, as the program computes it. For every table of rows the local engine returns, the
  loop keeps exactly the rows whose confidence is greater than 30 and whose text is not
  empty once stripped of white space (\<open>kept\<close>); it discards the rows with a confidence
  of 30 or less, and the rows whose text is empty or white space only. The confidence
  returned is the mean confidence of the rows kept, divided by 100, or 0 when no row is
  kept.
\<close>

theorem tesseract_confidence_mean:
  assumes "image_to_data ev image_bytes = Returned data"
  shows "collect data [] [] =
           (map (\<lambda>row. strip (fst row)) (filter kept data), map snd (filter kept data)) \<and>
         e_confidence (ocr_with_tesseract ev image_bytes) =
           (if filter kept data = [] then 0
            else real_of_int (sum_list (map snd (filter kept data)))
                   / real (length (filter kept data))) / 100"
  using assms by (simp add: collect_filter tesseract_returned)

lemma strip_more:
  "strip '' ef '' = ''ef''" "strip ''cd'' = ''cd''"
  by (simp_all add: strip_def isspace_def)

theorem tesseract_confidence_mean_witness:
  "image_to_data (fixed_env None (Raised ''not called'')
       (Returned [(''ab'', 30), (''  '', 90), (''cd'', 80), ('' ef '', 40)])) [1, 2]
     = Returned [(''ab'', 30), (''  '', 90), (''cd'', 80), ('' ef '', 40)] \<and>
   filter kept [(''ab'', 30), (''  '', 90), (''cd'', 80), ('' ef '', 40)]
     = [(''cd'', 80), ('' ef '', 40)] \<and>
   collect [(''ab'', 30), (''  '', 90), (''cd'', 80), ('' ef '', 40)] [] []
     = ([''cd'', ''ef''], [80, 40]) \<and>
   e_confidence (ocr_with_tesseract (fixed_env None (Raised ''not called'')
       (Returned [(''ab'', 30), (''  '', 90), (''cd'', 80), ('' ef '', 40)])) [1, 2]) = 0.6"
  using tesseract_confidence_mean
    [of "fixed_env None (Raised ''not called'')
       (Returned [(''ab'', 30), (''  '', 90), (''cd'', 80), ('' ef '', 40)])" "[1, 2]"
       "[(''ab'', 30), (''  '', 90), (''cd'', 80), ('' ef '', 40)]"]
  by (simp add: fixed_env_fields kept_def strip_examples strip_more)

text \<open>
  C3 as stated discards the rows whose confidence is below 30. A row with confidence
  exactly 30 and the text \<open>ab\<close> is neither below 30 nor empty, yet the program discards
  it: the text returned is empty and the confidence is 0, not 30 / 100.
\<close>

theorem confidence_30_discarded:
  "\<not> ((30::int) < 30) \<and> ''ab'' \<noteq> [] \<and>
   e_text (ocr_with_tesseract
     (fixed_env None (Raised ''not called'') (Returned [(''ab'', 30)])) [1, 2]) = [] \<and>
   e_confidence (ocr_with_tesseract
     (fixed_env None (Raised ''not called'') (Returned [(''ab'', 30)])) [1, 2]) = 0 \<and>
   e_confidence (ocr_with_tesseract
     (fixed_env None (Raised ''not called'') (Returned [(''ab'', 30)])) [1, 2]) \<noteq> 30 / 100"
  by (simp add: tesseract_returned fixed_env_fields kept_def strip_examples)

section \<open>Failures of the image classifier\<close>

text \<open>
  C9, as the program computes it. When \<open>load_resources\<close> returns and leaves the model or
  the label map unset, or when the model's inference raises, then
  \<open>predict_stockcode_from_image\<close> returns the label \<open>ERROR\<close> with confidence 0.0. The
  label \<open>UNKNOWN\<close> is the default of the look-up in the label map, after an inference that
  succeeded.
\<close>

theorem classifier_failure_returns_ERROR:
  assumes "load_resources fs g = (None, g')"
    and "model g' = None \<or> label_map g' = None \<or>
         (\<exists>m e. model g' = Some m \<and> m image_bytes = Raised e)"
  shows "predict_stockcode_from_image fs g image_bytes = (Returned (''ERROR'', 0), g')"
  using assms by (auto simp: predict_stockcode_from_image_def)

lemma load_nothing:
  "load_resources \<lparr>model_file = None, label_map_file = None\<rparr> \<lparr>model = None, label_map = None\<rparr>
     = (None, \<lparr>model = None, label_map = None\<rparr>)"
  by (simp add: load_resources_def load_model_def load_label_map_def)

lemma load_present:
  "load_resources \<lparr>model_file = None, label_map_file = None\<rparr>
       \<lparr>model = Some failing_cnn, label_map = Some StrKeys\<rparr>
     = (None, \<lparr>model = Some failing_cnn, label_map = Some StrKeys\<rparr>)"
  by (simp add: load_resources_def load_model_def load_label_map_def)

theorem classifier_failure_returns_ERROR_witness:
  "load_resources \<lparr>model_file = None, label_map_file = None\<rparr> \<lparr>model = None, label_map = None\<rparr>
     = (None, \<lparr>model = None, label_map = None\<rparr>) \<and>
   model \<lparr>model = None, label_map = None\<rparr> = None \<and>
   predict_stockcode_from_image \<lparr>model_file = None, label_map_file = None\<rparr>
       \<lparr>model = None, label_map = None\<rparr> [1, 2]
     = (Returned (''ERROR'', 0), \<lparr>model = None, label_map = None\<rparr>) \<and>
   load_resources \<lparr>model_file = None, label_map_file = None\<rparr>
       \<lparr>model = Some failing_cnn, label_map = Some StrKeys\<rparr>
     = (None, \<lparr>model = Some failing_cnn, label_map = Some StrKeys\<rparr>) \<and>
   failing_cnn [1, 2] = Raised ''cannot identify image file'' \<and>
   predict_stockcode_from_image \<lparr>model_file = None, label_map_file = None\<rparr>
       \<lparr>model = Some failing_cnn, label_map = Some StrKeys\<rparr> [1, 2]
     = (Returned (''ERROR'', 0), \<lparr>model = Some failing_cnn, label_map = Some StrKeys\<rparr>)"
  using classifier_failure_returns_ERROR
    [of "\<lparr>model_file = None, label_map_file = None\<rparr>" "\<lparr>model = None, label_map = None\<rparr>"
        "\<lparr>model = None, label_map = None\<rparr>" "[1, 2]"]
    classifier_failure_returns_ERROR
    [of "\<lparr>model_file = None, label_map_file = None\<rparr>"
        "\<lparr>model = Some failing_cnn, label_map = Some StrKeys\<rparr>"
        "\<lparr>model = Some failing_cnn, label_map = Some StrKeys\<rparr>" "[1, 2]"]
  by (simp add: load_nothing load_present failing_cnn_def)

text \<open>
  C9 as stated gives the label \<open>UNKNOWN\<close>. With neither file on disk, the model and the
  label map are unavailable, and the program returns \<open>ERROR\<close>.
\<close>

theorem missing_model_is_not_UNKNOWN:
  "fst (predict_stockcode_from_image \<lparr>model_file = None, label_map_file = None\<rparr>
       \<lparr>model = None, label_map = None\<rparr> [1, 2]) = Returned (''ERROR'', 0) \<and>
   fst (predict_stockcode_from_image \<lparr>model_file = None, label_map_file = None\<rparr>
       \<lparr>model = None, label_map = None\<rparr> [1, 2]) \<noteq> Returned (''UNKNOWN'', 0)"
  by (simp add: predict_stockcode_from_image_def load_nothing)

end
